theory Spec2Isabelle
  imports Complex_Main
begin

section \<open>Bike-share traffic map: data model\<close>

text \<open>
  A shallow embedding of \<^verbatim>\<open>map.js\<close>: the trip filter, the per-station traffic
  aggregation, the two d3 scales and the two handlers that redraw the circles.

  JavaScript numbers are modelled as \<open>NaN\<close> or a finite real. The timestamps and the
  counts of this program are small integers, on which double arithmetic is exact; the
  values \<open>+Infinity\<close> and \<open>-Infinity\<close> are left out.
\<close>

datatype jsnum = NaN | Num real

text \<open>\<^verbatim>\<open>a - b\<close>, \<^verbatim>\<open>Math.abs(a)\<close>, \<^verbatim>\<open>a <= b\<close> and \<^verbatim>\<open>a === b\<close> on numbers: \<open>NaN\<close> is
  contagious in arithmetic and every comparison with \<open>NaN\<close> is false.\<close>

fun js_sub :: "jsnum \<Rightarrow> jsnum \<Rightarrow> jsnum" where
  "js_sub (Num a) (Num b) = Num (a - b)"
| "js_sub _ _ = NaN"

fun js_abs :: "jsnum \<Rightarrow> jsnum" where
  "js_abs (Num a) = Num \<bar>a\<bar>"
| "js_abs NaN = NaN"

fun js_le :: "jsnum \<Rightarrow> jsnum \<Rightarrow> bool" where
  "js_le (Num a) (Num b) = (a \<le> b)"
| "js_le _ _ = False"

fun js_strict_eq :: "jsnum \<Rightarrow> jsnum \<Rightarrow> bool" where
  "js_strict_eq (Num a) (Num b) = (a = b)"
| "js_strict_eq _ _ = False"

text \<open>A \<^verbatim>\<open>Date\<close>, as far as the program reads it: the local hour and minute, or an
  invalid date (what \<^verbatim>\<open>new Date(s)\<close> gives on a malformed string), whose getters
  return \<open>NaN\<close>.\<close>

datatype jsdate = InvalidDate | Date (getHours: nat) (getMinutes: nat)

record trip =
  start_station_id :: string
  end_station_id :: string
  started_at :: jsdate
  ended_at :: jsdate

text \<open>A station object. The three derived properties are absent (\<open>None\<close>, JavaScript's
  \<^verbatim>\<open>undefined\<close>) on a station as loaded, and assigned by the aggregation.\<close>

record station =
  short_name :: string
  lon :: real
  lat :: real
  arrivals :: "nat option"
  departures :: "nat option"
  totalTraffic :: "nat option"

section \<open>Trip selection\<close>

text \<open>\<^verbatim>\<open>date.getHours() * 60 + date.getMinutes()\<close>; on an invalid date both getters are
  \<open>NaN\<close> and so is the sum.\<close>

fun minutesSinceMidnight :: "jsdate \<Rightarrow> jsnum" where
  "minutesSinceMidnight (Date h m) = Num (real h * 60 + real m)"
| "minutesSinceMidnight InvalidDate = NaN"

definition filterTripsbyTime :: "trip list \<Rightarrow> jsnum \<Rightarrow> trip list" where
  "filterTripsbyTime trips timeFilter =
     (if js_strict_eq timeFilter (Num (- 1)) then trips
      else filter (\<lambda>trip.
             let startedMinutes = minutesSinceMidnight (started_at trip);
                 endedMinutes = minutesSinceMidnight (ended_at trip)
             in js_le (js_abs (js_sub startedMinutes timeFilter)) (Num 60) \<or>
                js_le (js_abs (js_sub endedMinutes timeFilter)) (Num 60)) trips)"

text \<open>The selection rule in the specification's words: minutes of the day as an integer,
  a window of 60 minutes on either side of \<open>m\<close>, either endpoint of the trip. A timestamp
  that is not a valid date has no minute of the day and matches no window.\<close>

definition minutesOfDay :: "nat \<Rightarrow> nat \<Rightarrow> int" where
  "minutesOfDay hour minute = int hour * 60 + int minute"

fun in_window :: "int \<Rightarrow> jsdate \<Rightarrow> bool" where
  "in_window m (Date hour minute) = (\<bar>minutesOfDay hour minute - m\<bar> \<le> 60)"
| "in_window m InvalidDate = False"

definition spec_selected :: "int \<Rightarrow> trip \<Rightarrow> bool" where
  "spec_selected m t = (in_window m (started_at t) \<or> in_window m (ended_at t))"

section \<open>Traffic aggregation\<close>

text \<open>\<^verbatim>\<open>d3.rollup(values, reduce, key)\<close>: the values are grouped by key in one pass (a new
  key starts a group, a known key has the value pushed on its group), then every group
  is replaced by its reduction.\<close>

definition group_step :: "('a \<Rightarrow> 'k) \<Rightarrow> ('k \<rightharpoonup> 'a list) \<Rightarrow> 'a \<Rightarrow> ('k \<rightharpoonup> 'a list)" where
  "group_step keyof groups v =
     (case groups (keyof v) of
        Some g \<Rightarrow> groups(keyof v \<mapsto> g @ [v])
      | None \<Rightarrow> groups(keyof v \<mapsto> [v]))"

definition d3_rollup :: "'a list \<Rightarrow> ('a list \<Rightarrow> 'b) \<Rightarrow> ('a \<Rightarrow> 'k) \<Rightarrow> ('k \<rightharpoonup> 'b)" where
  "d3_rollup vs reduce keyof = (\<lambda>k. map_option reduce (foldl (group_step keyof) Map.empty vs k))"

text \<open>\<^verbatim>\<open>x ?? d\<close>\<close>

fun nullish :: "'a option \<Rightarrow> 'a \<Rightarrow> 'a" where
  "nullish (Some x) d = x"
| "nullish None d = d"

definition computeStationTraffic :: "station list \<Rightarrow> trip list \<Rightarrow> station list" where
  "computeStationTraffic stations trips =
     (let departureMap = d3_rollup trips length start_station_id;
          arrivalMap = d3_rollup trips length end_station_id
      in map (\<lambda>station.
            let id = short_name station;
                station = station\<lparr>arrivals := Some (nullish (arrivalMap id) 0)\<rparr>;
                station = station\<lparr>departures := Some (nullish (departureMap id) 0)\<rparr>;
                station = station\<lparr>totalTraffic :=
                  (case (arrivals station, departures station) of
                     (Some a, Some d) \<Rightarrow> Some (a + d)
                   | _ \<Rightarrow> None)\<rparr>
            in station) stations)"

section \<open>The two scales\<close>

text \<open>\<^verbatim>\<open>d3.max(values, valueof)\<close>: the greatest value, skipping \<^verbatim>\<open>undefined\<close> ones;
  \<^verbatim>\<open>undefined\<close> (here \<open>None\<close>) when there is none.\<close>

definition max_step :: "('a \<Rightarrow> nat option) \<Rightarrow> nat option \<Rightarrow> 'a \<Rightarrow> nat option" where
  "max_step valueof mx v =
     (case valueof v of
        None \<Rightarrow> mx
      | Some x \<Rightarrow> (case mx of
                    None \<Rightarrow> Some x
                  | Some m \<Rightarrow> if m < x then Some x else Some m))"

definition d3_max :: "'a list \<Rightarrow> ('a \<Rightarrow> nat option) \<Rightarrow> nat option" where
  "d3_max vs valueof = foldl (max_step valueof) None vs"

text \<open>The coercion \<^verbatim>\<open>+x\<close> of a count that may be \<^verbatim>\<open>undefined\<close>.\<close>

fun to_number :: "nat option \<Rightarrow> jsnum" where
  "to_number (Some n) = Num (real n)"
| "to_number None = NaN"

text \<open>\<^verbatim>\<open>d3.scaleSqrt()\<close> is a continuous scale with the transform \<^verbatim>\<open>transformSqrt\<close>:
  the (transformed) domain is normalised to \<open>[0, 1]\<close> and the result interpolated in the
  range. A domain of width zero normalises every input to \<open>0.5\<close>; a \<open>NaN\<close> in the
  domain or as input gives no number.\<close>

record sqrt_scale =
  scale_domain :: "jsnum \<times> jsnum"
  scale_range :: "real \<times> real"

definition transformSqrt :: "real \<Rightarrow> real" where
  "transformSqrt x = (if x < 0 then - sqrt (- x) else sqrt x)"

definition normalize :: "real \<Rightarrow> real \<Rightarrow> real \<Rightarrow> real" where
  "normalize a b x = (if b - a \<noteq> 0 then (x - a) / (b - a) else 0.5)"

definition interpolateNumber :: "real \<Rightarrow> real \<Rightarrow> real \<Rightarrow> real" where
  "interpolateNumber a b t = a * (1 - t) + b * t"

fun scale_apply :: "sqrt_scale \<Rightarrow> jsnum \<Rightarrow> jsnum" where
  "scale_apply sc NaN = NaN"
| "scale_apply sc (Num x) =
     (case scale_domain sc of
        (Num a, Num b) \<Rightarrow>
          (let d0 = transformSqrt a; d1 = transformSqrt b;
               r0 = fst (scale_range sc); r1 = snd (scale_range sc)
           in if d1 < d0
              then Num (interpolateNumber r1 r0 (normalize d1 d0 (transformSqrt x)))
              else Num (interpolateNumber r0 r1 (normalize d0 d1 (transformSqrt x))))
      | _ \<Rightarrow> NaN)"

text \<open>\<^verbatim>\<open>d3.scaleQuantize()\<close>: the domain \<open>[x0, x1]\<close> is cut by \<open>n\<close> evenly spaced
  thresholds, \<open>n + 1\<close> being the number of range values, and an input is sent to the range
  value whose index \<^verbatim>\<open>bisect\<close> finds among the thresholds by binary search.\<close>

record quantize_scale =
  q_x0 :: real
  q_x1 :: real
  q_range :: "real list"

definition thresholds :: "quantize_scale \<Rightarrow> real list" where
  "thresholds q =
     (let n = length (q_range q) - 1
      in map (\<lambda>i. ((real i + 1) * q_x1 q - (real i - real n) * q_x0 q) / (real n + 1)) [0..<n])"

function bisectRight :: "real list \<Rightarrow> real \<Rightarrow> nat \<Rightarrow> nat \<Rightarrow> nat" where
  "bisectRight a x lo hi =
     (if lo < hi
      then (let mid = (lo + hi) div 2
            in if a ! mid \<le> x then bisectRight a x (mid + 1) hi
               else bisectRight a x lo mid)
      else lo)"
  by pat_completeness auto
termination
  by (relation "measure (\<lambda>(a, x, lo, hi). hi - lo)") auto

declare bisectRight.simps [simp del]

fun quantize_apply :: "quantize_scale \<Rightarrow> jsnum \<Rightarrow> real option" where
  "quantize_apply q NaN = None"
| "quantize_apply q (Num x) =
     (let i = bisectRight (thresholds q) x 0 (length (q_range q) - 1)
      in if i < length (q_range q) then Some (q_range q ! i) else None)"

definition stationFlow :: quantize_scale where
  "stationFlow = \<lparr>q_x0 = 0, q_x1 = 1, q_range = [0, 0.5, 1]\<rparr>"

text \<open>The argument of \<^verbatim>\<open>stationFlow\<close> in \<^verbatim>\<open>updateScatterPlot\<close>:
  \<^verbatim>\<open>d.totalTraffic === 0 ? 0.5 : d.departures / d.totalTraffic\<close>. The division is only
  reached with a total other than zero; an \<^verbatim>\<open>undefined\<close> operand makes it \<open>NaN\<close>.\<close>

definition flow_input :: "station \<Rightarrow> jsnum" where
  "flow_input d =
     (if totalTraffic d = Some 0 then Num 0.5
      else (case (departures d, totalTraffic d) of
              (Some dep, Some tot) \<Rightarrow> Num (real dep / real tot)
            | _ \<Rightarrow> NaN))"

section \<open>The view and its handlers\<close>

text \<open>One circle per station. \<open>None\<close> is an attribute not set yet (or a style removed by
  an \<^verbatim>\<open>undefined\<close> value); the radius attribute holds what the radius scale returned.\<close>

record circle =
  attr_cx :: "real option"
  attr_cy :: "real option"
  attr_r :: jsnum
  departure_ratio :: "real option"

text \<open>The variables the handlers close over. The station objects are shared by the
  station array and the circles: the \<open>i\<close>-th circle is bound to the \<open>i\<close>-th station (the
  stations' keys being unique, the keyed join of \<^verbatim>\<open>updateScatterPlot\<close> binds every circle
  to its own station again, with nothing entering or leaving).\<close>

record view =
  v_stations :: "station list"
  v_trips :: "trip list"
  v_radiusScale :: sqrt_scale
  v_circles :: "circle list"
  v_timeFilter :: jsnum

text \<open>The map's projection at the time of an event: \<^verbatim>\<open>map.project\<close> of a longitude
  and a latitude.\<close>

type_synonym projection = "real \<Rightarrow> real \<Rightarrow> real \<times> real"

definition getCoords :: "projection \<Rightarrow> station \<Rightarrow> real \<times> real" where
  "getCoords project station = project (lon station) (lat station)"

text \<open>The load handler once both datasets are there: the first aggregation over all
  trips, the radius scale, one circle per station.\<close>

definition draw :: "station list \<Rightarrow> trip list \<Rightarrow> view" where
  "draw stations0 trips =
     (let stations = computeStationTraffic stations0 trips;
          radiusScale = \<lparr>scale_domain = (Num 0, to_number (d3_max stations totalTraffic)),
                         scale_range = (0, 25)\<rparr>
      in \<lparr>v_stations = stations, v_trips = trips, v_radiusScale = radiusScale,
          v_circles = map (\<lambda>d. \<lparr>attr_cx = None, attr_cy = None,
                                  attr_r = scale_apply radiusScale (to_number (totalTraffic d)),
                                  departure_ratio = None\<rparr>) stations,
          v_timeFilter = Num (- 1)\<rparr>)"

definition updatePositions :: "projection \<Rightarrow> view \<Rightarrow> view" where
  "updatePositions project v =
     v\<lparr>v_circles :=
         map (\<lambda>(d, c). c\<lparr>attr_cx := Some (fst (getCoords project d)),
                          attr_cy := Some (snd (getCoords project d)),
                          attr_r := scale_apply (v_radiusScale v) (to_number (totalTraffic d))\<rparr>)
             (zip (v_stations v) (v_circles v))\<rparr>"

definition updateScatterPlot :: "projection \<Rightarrow> jsnum \<Rightarrow> view \<Rightarrow> view" where
  "updateScatterPlot project timeFilter v =
     (let filteredTrips = filterTripsbyTime (v_trips v) timeFilter;
          filteredStations = computeStationTraffic (v_stations v) filteredTrips;
          radiusScale = (v_radiusScale v)\<lparr>scale_range :=
                           (if js_strict_eq timeFilter (Num (- 1)) then (0, 25) else (3, 50))\<rparr>
      in v\<lparr>v_stations := filteredStations,
           v_radiusScale := radiusScale,
           v_circles :=
             map (\<lambda>(d, c). c\<lparr>attr_cx := Some (fst (getCoords project d)),
                              attr_cy := Some (snd (getCoords project d)),
                              attr_r := scale_apply radiusScale (to_number (totalTraffic d)),
                              departure_ratio := quantize_apply stationFlow (flow_input d)\<rparr>)
                 (zip filteredStations (v_circles v))\<rparr>)"

text \<open>\<^verbatim>\<open>updateTimeDisplay\<close>, given \<^verbatim>\<open>Number(timeSlider.value)\<close>: the number is stored and
  handed to \<^verbatim>\<open>updateScatterPlot\<close> as it is. The two time labels are not modelled.\<close>

definition updateTimeDisplay :: "projection \<Rightarrow> jsnum \<Rightarrow> view \<Rightarrow> view" where
  "updateTimeDisplay project sliderValue v =
     updateScatterPlot project sliderValue (v\<lparr>v_timeFilter := sliderValue\<rparr>)"

text \<open>The events after the first drawing: the map moved (move, zoom, resize), or the
  slider gave a value; each with the projection then in force.\<close>

datatype event = MapMoved projection | SliderInput projection jsnum

fun handle :: "view \<Rightarrow> event \<Rightarrow> view" where
  "handle v (MapMoved project) = updatePositions project v"
| "handle v (SliderInput project sliderValue) = updateTimeDisplay project sliderValue v"

definition run :: "view \<Rightarrow> event list \<Rightarrow> view" where
  "run v events = foldl handle v events"

text \<open>The drawn radii are current: every circle's radius attribute is what the radius
  scale, as it is now, gives for the total traffic of the circle's station.\<close>

definition radii_current :: "view \<Rightarrow> bool" where
  "radii_current v =
     (map attr_r (v_circles v) =
      map (\<lambda>d. scale_apply (v_radiusScale v) (to_number (totalTraffic d))) (v_stations v))"

section \<open>Concrete inputs\<close>

text \<open>The specification's scenario: stations A and B, one trip from A to B starting at
  08:00 and ending at 08:10, one from B to A starting at 08:05 and ending at 08:20.\<close>

definition example_station :: "string \<Rightarrow> station" where
  "example_station name =
     \<lparr>short_name = name, lon = 0, lat = 0,
      arrivals = None, departures = None, totalTraffic = None\<rparr>"

definition example_trip :: "string \<Rightarrow> string \<Rightarrow> nat \<times> nat \<Rightarrow> nat \<times> nat \<Rightarrow> trip" where
  "example_trip a b s e =
     \<lparr>start_station_id = a, end_station_id = b,
      started_at = Date (fst s) (snd s), ended_at = Date (fst e) (snd e)\<rparr>"

definition scenario_stations :: "station list" where
  "scenario_stations = [example_station ''A'', example_station ''B'']"

definition scenario_trips :: "trip list" where
  "scenario_trips =
     [example_trip ''A'' ''B'' (8, 0) (8, 10), example_trip ''B'' ''A'' (8, 5) (8, 20)]"

text \<open>A busier morning: three trips from A to B around 08:00 and one at noon.\<close>

definition morning_trips :: "trip list" where
  "morning_trips =
     [example_trip ''A'' ''B'' (8, 0) (8, 10), example_trip ''A'' ''B'' (8, 0) (8, 10),
      example_trip ''A'' ''B'' (8, 0) (8, 10), example_trip ''A'' ''B'' (12, 0) (12, 10)]"

definition example_project :: projection where
  "example_project x y = (x, y)"

section \<open>Trip selection: properties\<close>

text \<open>On an integer filter value the window test of the code, carried out on JavaScript
  numbers, is the integer test of the specification.\<close>

lemma window_test_int:
  "js_le (js_abs (js_sub (minutesSinceMidnight d) (Num (real_of_int m)))) (Num 60) = in_window m d"
proof (cases d)
  case InvalidDate
  then show ?thesis by simp
next
  case (Date h mi)
  have "real h * 60 + real mi - real_of_int m = real_of_int (int h * 60 + int mi - m)"
    by simp
  then have "(\<bar>real h * 60 + real mi - real_of_int m\<bar> \<le> 60) = (\<bar>int h * 60 + int mi - m\<bar> \<le> 60)"
    by (metis of_int_abs of_int_le_numeral_iff)
  with Date show ?thesis by (simp add: minutesOfDay_def)
qed

lemma filter_int_window:
  "m \<noteq> - 1 \<Longrightarrow> filterTripsbyTime T (Num (real_of_int m)) = filter (spec_selected m) T"
  by (simp add: filterTripsbyTime_def window_test_int spec_selected_def [abs_def])

lemma window_test_NaN: "js_le (js_abs (js_sub x NaN)) y = False"
  by (cases x) simp_all

lemma filter_NaN: "filterTripsbyTime T NaN = []"
  by (simp add: filterTripsbyTime_def window_test_NaN)

lemma filter_unfiltered: "filterTripsbyTime T (Num (- 1)) = T"
  by (simp add: filterTripsbyTime_def)

text \<open>
  \<^bold>\<open>C2.\<close> With the filter value \<open>-1\<close>, \<open>filterTripsbyTime\<close> returns the trips as they are.
  With a minute \<open>m\<close> between 0 and 1439 it keeps, in order, exactly the trips that start or
  end within 60 minutes of \<open>m\<close>, the minute of the day being hour times 60 plus minute.
  The window does not wrap at midnight: a trip that starts and ends at 23:50 is not
  selected for \<open>m = 10\<close>.
\<close>

theorem filterTripsbyTime_window:
  "filterTripsbyTime T (Num (- 1)) = T \<and>
   (0 \<le> m \<and> m \<le> 1439 \<longrightarrow>
      filterTripsbyTime T (Num (real_of_int m)) = filter (spec_selected m) T) \<and>
   (started_at t = Date 23 50 \<and> ended_at t = Date 23 50 \<longrightarrow>
      t \<notin> set (filterTripsbyTime T (Num 10)))"
proof (intro conjI impI)
  show "filterTripsbyTime T (Num (- 1)) = T" by (rule filter_unfiltered)
next
  assume "0 \<le> m \<and> m \<le> 1439"
  then have "m \<noteq> - 1" by simp
  then show "filterTripsbyTime T (Num (real_of_int m)) = filter (spec_selected m) T"
    by (rule filter_int_window)
next
  assume "started_at t = Date 23 50 \<and> ended_at t = Date 23 50"
  then have "\<not> spec_selected 10 t"
    by (simp add: spec_selected_def minutesOfDay_def)
  moreover have "filterTripsbyTime T (Num 10) = filter (spec_selected 10) T"
    using filter_int_window [of 10 T] by simp
  ultimately show "t \<notin> set (filterTripsbyTime T (Num 10))" by simp
qed

theorem filterTripsbyTime_window_witness:
  "(0::int) \<le> 480 \<and> (480::int) \<le> 1439 \<and>
   filterTripsbyTime scenario_trips (Num 480) = scenario_trips \<and>
   started_at (example_trip ''A'' ''B'' (23, 50) (23, 50)) = Date 23 50 \<and>
   ended_at (example_trip ''A'' ''B'' (23, 50) (23, 50)) = Date 23 50 \<and>
   example_trip ''A'' ''B'' (23, 50) (23, 50) \<notin> set (filterTripsbyTime scenario_trips (Num 10))"
proof -
  have sel: "filter (spec_selected 480) scenario_trips = scenario_trips"
    by (simp add: spec_selected_def scenario_trips_def example_trip_def minutesOfDay_def)
  have ends: "started_at (example_trip ''A'' ''B'' (23, 50) (23, 50)) = Date 23 50"
    "ended_at (example_trip ''A'' ''B'' (23, 50) (23, 50)) = Date 23 50"
    by (simp_all add: example_trip_def)
  show ?thesis
    using filterTripsbyTime_window
      [of scenario_trips 480 "example_trip ''A'' ''B'' (23, 50) (23, 50)"] sel ends
    by simp
qed

text \<open>
  \<^bold>\<open>C10.\<close> \<open>NaN\<close> is not strictly equal to \<open>-1\<close>, so a \<open>NaN\<close> filter value takes the
  filtering branch, where every comparison fails: no trip is selected, and the
  aggregation over the empty selection gives every station zero arrivals, departures and
  total traffic.
\<close>

theorem filterTripsbyTime_NaN:
  "\<not> js_strict_eq NaN (Num (- 1)) \<and>
   filterTripsbyTime T NaN = [] \<and>
   map arrivals (computeStationTraffic S (filterTripsbyTime T NaN)) = map (\<lambda>s. Some 0) S \<and>
   map departures (computeStationTraffic S (filterTripsbyTime T NaN)) = map (\<lambda>s. Some 0) S \<and>
   map totalTraffic (computeStationTraffic S (filterTripsbyTime T NaN)) = map (\<lambda>s. Some 0) S"
  by (simp add: filter_NaN computeStationTraffic_def Let_def d3_rollup_def)




section \<open>Traffic aggregation: properties\<close>

text \<open>What the one-pass grouping leaves under a key: the values with that key, in
  order, after whatever the key held before.\<close>

lemma group_step_apply:
  "group_step keyof m v k =
     (if keyof v = k then Some (case m k of None \<Rightarrow> [v] | Some g \<Rightarrow> g @ [v]) else m k)"
  by (simp add: group_step_def split: option.split)

lemma foldl_group_step:
  "foldl (group_step keyof) m vs k =
     (case m k of
        None \<Rightarrow> (if filter (\<lambda>v. keyof v = k) vs = [] then None
                  else Some (filter (\<lambda>v. keyof v = k) vs))
      | Some g \<Rightarrow> Some (g @ filter (\<lambda>v. keyof v = k) vs))"
proof (induction vs arbitrary: m)
  case Nil
  show ?case by (simp split: option.split)
next
  case (Cons v vs)
  let ?sel = "filter (\<lambda>v. keyof v = k)"
  have "foldl (group_step keyof) m (v # vs) k
        = foldl (group_step keyof) (group_step keyof m v) vs k"
    by simp
  also have "\<dots> = (case group_step keyof m v k of
                     None \<Rightarrow> (if ?sel vs = [] then None else Some (?sel vs))
                   | Some g \<Rightarrow> Some (g @ ?sel vs))"
    by (rule Cons.IH)
  also have "\<dots> = (case m k of
                     None \<Rightarrow> (if ?sel (v # vs) = [] then None else Some (?sel (v # vs)))
                   | Some g \<Rightarrow> Some (g @ ?sel (v # vs)))"
    by (simp add: group_step_apply split: option.split)
  finally show ?case .
qed

lemma nullish_rollup_length:
  "nullish (d3_rollup vs length keyof k) 0 = length (filter (\<lambda>v. keyof v = k) vs)"
  by (simp add: d3_rollup_def foldl_group_step)

lemma computeStationTraffic_map:
  "computeStationTraffic S T =
     map (\<lambda>s. s\<lparr>arrivals := Some (length (filter (\<lambda>t. end_station_id t = short_name s) T)),
               departures := Some (length (filter (\<lambda>t. start_station_id t = short_name s) T)),
               totalTraffic := Some (length (filter (\<lambda>t. end_station_id t = short_name s) T) +
                                     length (filter (\<lambda>t. start_station_id t = short_name s) T))\<rparr>) S"
  by (simp add: computeStationTraffic_def Let_def nullish_rollup_length)

lemma computeStationTraffic_again:
  "computeStationTraffic (computeStationTraffic S T') T = computeStationTraffic S T"
  by (simp add: computeStationTraffic_map)

lemma length_computeStationTraffic: "length (computeStationTraffic S T) = length S"
  by (simp add: computeStationTraffic_map)

text \<open>With pairwise distinct keys a trip endpoint is counted by at most one station.\<close>

lemma indicator_sum_le_one:
  "distinct (map f S) \<Longrightarrow> sum_list (map (\<lambda>s. if k = f s then 1 else 0) S) \<le> (1::nat)"
proof (induction S)
  case Nil
  show ?case by simp
next
  case (Cons a S)
  have "k = f a \<Longrightarrow> sum_list (map (\<lambda>s. if k = f s then 1 else 0) S) = (0::nat)"
    using Cons.prems by auto
  with Cons show ?case by auto
qed

lemma matching_sum_le_length:
  assumes "distinct (map f S)"
  shows "sum_list (map (\<lambda>s. length (filter (\<lambda>t. g t = f s) T)) S) \<le> length T"
proof (induction T)
  case Nil
  show ?case by simp
next
  case (Cons t T)
  have "sum_list (map (\<lambda>s. length (filter (\<lambda>u. g u = f s) (t # T))) S)
        = sum_list (map (\<lambda>s. (if g t = f s then 1 else 0) + length (filter (\<lambda>u. g u = f s) T)) S)"
    by (rule arg_cong [where f = sum_list]) simp
  also have "\<dots> = sum_list (map (\<lambda>s. if g t = f s then 1 else 0) S)
                  + sum_list (map (\<lambda>s. length (filter (\<lambda>u. g u = f s) T)) S)"
    by (simp add: sum_list_addf)
  also have "\<dots> \<le> 1 + length T"
    using indicator_sum_le_one [OF assms, of "g t"] Cons.IH by linarith
  finally show ?case by simp
qed

text \<open>
  \<^bold>\<open>C1.\<close> For every station array \<open>S\<close> and trip array \<open>T\<close>, \<open>computeStationTraffic\<close>
  gives each station, in place, as arrivals the number of trips of \<open>T\<close> whose
  \<open>end_station_id\<close> is the station's \<open>short_name\<close>, as departures the number of trips
  whose \<open>start_station_id\<close> is, and as total traffic the sum of its arrivals and
  departures. Station keys being unique (the data model's invariant), the arrivals
  summed over the stations are at most the number of trips, and so are the departures.
\<close>

theorem computeStationTraffic_counts:
  "map arrivals (computeStationTraffic S T) =
     map (\<lambda>s. Some (length (filter (\<lambda>t. end_station_id t = short_name s) T))) S \<and>
   map departures (computeStationTraffic S T) =
     map (\<lambda>s. Some (length (filter (\<lambda>t. start_station_id t = short_name s) T))) S \<and>
   map totalTraffic (computeStationTraffic S T) =
     map (\<lambda>s. Some (nullish (arrivals s) 0 + nullish (departures s) 0))
         (computeStationTraffic S T) \<and>
   (distinct (map short_name S) \<longrightarrow>
      sum_list (map (\<lambda>s. nullish (arrivals s) 0) (computeStationTraffic S T)) \<le> length T \<and>
      sum_list (map (\<lambda>s. nullish (departures s) 0) (computeStationTraffic S T)) \<le> length T)"
proof (intro conjI impI)
  show "map arrivals (computeStationTraffic S T) =
     map (\<lambda>s. Some (length (filter (\<lambda>t. end_station_id t = short_name s) T))) S"
    by (simp add: computeStationTraffic_map)
  show "map departures (computeStationTraffic S T) =
     map (\<lambda>s. Some (length (filter (\<lambda>t. start_station_id t = short_name s) T))) S"
    by (simp add: computeStationTraffic_map)
  show "map totalTraffic (computeStationTraffic S T) =
     map (\<lambda>s. Some (nullish (arrivals s) 0 + nullish (departures s) 0))
         (computeStationTraffic S T)"
    by (simp add: computeStationTraffic_map)
next
  assume d: "distinct (map short_name S)"
  have "map (\<lambda>s. nullish (arrivals s) 0) (computeStationTraffic S T)
        = map (\<lambda>s. length (filter (\<lambda>t. end_station_id t = short_name s) T)) S"
    by (simp add: computeStationTraffic_map)
  then show "sum_list (map (\<lambda>s. nullish (arrivals s) 0) (computeStationTraffic S T)) \<le> length T"
    using matching_sum_le_length [OF d, of end_station_id T] by simp
  have "map (\<lambda>s. nullish (departures s) 0) (computeStationTraffic S T)
        = map (\<lambda>s. length (filter (\<lambda>t. start_station_id t = short_name s) T)) S"
    by (simp add: computeStationTraffic_map)
  then show "sum_list (map (\<lambda>s. nullish (departures s) 0) (computeStationTraffic S T)) \<le> length T"
    using matching_sum_le_length [OF d, of start_station_id T] by simp
qed

theorem computeStationTraffic_counts_witness:
  "distinct (map short_name scenario_stations) \<and>
   map arrivals (computeStationTraffic scenario_stations scenario_trips) = [Some 1, Some 1] \<and>
   map departures (computeStationTraffic scenario_stations scenario_trips) = [Some 1, Some 1] \<and>
   map totalTraffic (computeStationTraffic scenario_stations scenario_trips) = [Some 2, Some 2] \<and>
   sum_list (map (\<lambda>s. nullish (arrivals s) 0)
      (computeStationTraffic scenario_stations scenario_trips)) \<le> length scenario_trips \<and>
   sum_list (map (\<lambda>s. nullish (departures s) 0)
      (computeStationTraffic scenario_stations scenario_trips)) \<le> length scenario_trips"
proof -
  have d: "distinct (map short_name scenario_stations)"
    by (simp add: scenario_stations_def example_station_def)
  have "sum_list (map (\<lambda>s. nullish (arrivals s) 0)
          (computeStationTraffic scenario_stations scenario_trips)) \<le> length scenario_trips"
    "sum_list (map (\<lambda>s. nullish (departures s) 0)
          (computeStationTraffic scenario_stations scenario_trips)) \<le> length scenario_trips"
    using computeStationTraffic_counts [of scenario_stations scenario_trips] d by blast+
  moreover have
    "map arrivals (computeStationTraffic scenario_stations scenario_trips) = [Some 1, Some 1]"
    "map departures (computeStationTraffic scenario_stations scenario_trips) = [Some 1, Some 1]"
    "map totalTraffic (computeStationTraffic scenario_stations scenario_trips) = [Some 2, Some 2]"
    by (simp_all add: computeStationTraffic_def Let_def d3_rollup_def group_step_def
        scenario_stations_def scenario_trips_def example_station_def example_trip_def)
  ultimately show ?thesis using d by simp
qed

text \<open>
  \<^bold>\<open>C5.\<close> Aggregation is idempotent: aggregating the result of an aggregation over the
  same trips again changes nothing. The counts are overwritten, never accumulated: the
  result over \<open>T\<close> is the same whatever trips \<open>T'\<close> the stations were aggregated over
  before.
\<close>

theorem computeStationTraffic_idempotent:
  "computeStationTraffic (computeStationTraffic S T) T = computeStationTraffic S T \<and>
   computeStationTraffic (computeStationTraffic S T') T = computeStationTraffic S T"
  by (simp add: computeStationTraffic_map)

text \<open>
  \<^bold>\<open>C6\<close> as stated fails: a trip whose start station is unknown but whose end station
  is known does contribute, to the arrivals of its end station.
\<close>

theorem unknown_start_counts_arrival:
  "start_station_id (example_trip ''X'' ''A'' (8, 0) (8, 10))
     \<notin> short_name ` set scenario_stations \<and>
   map arrivals (computeStationTraffic scenario_stations
                   [example_trip ''X'' ''A'' (8, 0) (8, 10)])
     \<noteq> map arrivals (computeStationTraffic scenario_stations [])"
  by (simp add: computeStationTraffic_def Let_def d3_rollup_def group_step_def
        scenario_stations_def example_station_def example_trip_def)

text \<open>
  \<^bold>\<open>C6, amended.\<close> An endpoint of a trip whose station id matches no station does not
  abort the aggregation and adds to no station's count for that endpoint: an unknown
  start leaves every station's departures as they are without the trip, an unknown end
  every station's arrivals; a trip with both ids unknown changes nothing at all. The
  trip's other endpoint is still counted: a station the trip ends at has one arrival
  more than without the trip, and a station it starts at one departure more, whatever
  the trip's other id is. A station that no trip starts or ends at gets arrivals,
  departures and total traffic 0.
\<close>

theorem unmatched_endpoint_not_counted:
  "(start_station_id t \<notin> short_name ` set S \<longrightarrow>
      map departures (computeStationTraffic S (T1 @ t # T2)) =
      map departures (computeStationTraffic S (T1 @ T2))) \<and>
   (end_station_id t \<notin> short_name ` set S \<longrightarrow>
      map arrivals (computeStationTraffic S (T1 @ t # T2)) =
      map arrivals (computeStationTraffic S (T1 @ T2))) \<and>
   (start_station_id t \<notin> short_name ` set S \<and> end_station_id t \<notin> short_name ` set S \<longrightarrow>
      computeStationTraffic S (T1 @ t # T2) = computeStationTraffic S (T1 @ T2)) \<and>
   (j < length S \<and> end_station_id t = short_name (S ! j) \<longrightarrow>
      arrivals (computeStationTraffic S (T1 @ t # T2) ! j) =
        Some (Suc (nullish (arrivals (computeStationTraffic S (T1 @ T2) ! j)) 0))) \<and>
   (j < length S \<and> start_station_id t = short_name (S ! j) \<longrightarrow>
      departures (computeStationTraffic S (T1 @ t # T2) ! j) =
        Some (Suc (nullish (departures (computeStationTraffic S (T1 @ T2) ! j)) 0))) \<and>
   (i < length S \<and>
    (\<forall>u \<in> set T. start_station_id u \<noteq> short_name (S ! i) \<and>
                  end_station_id u \<noteq> short_name (S ! i)) \<longrightarrow>
      computeStationTraffic S T ! i =
        (S ! i)\<lparr>arrivals := Some 0, departures := Some 0, totalTraffic := Some 0\<rparr>)"
proof (intro conjI impI)
  assume "start_station_id t \<notin> short_name ` set S"
  then show "map departures (computeStationTraffic S (T1 @ t # T2)) =
      map departures (computeStationTraffic S (T1 @ T2))"
    by (auto simp: computeStationTraffic_map)
next
  assume "end_station_id t \<notin> short_name ` set S"
  then show "map arrivals (computeStationTraffic S (T1 @ t # T2)) =
      map arrivals (computeStationTraffic S (T1 @ T2))"
    by (auto simp: computeStationTraffic_map)
next
  assume "start_station_id t \<notin> short_name ` set S \<and> end_station_id t \<notin> short_name ` set S"
  then show "computeStationTraffic S (T1 @ t # T2) = computeStationTraffic S (T1 @ T2)"
    by (auto simp: computeStationTraffic_map)
next
  assume "j < length S \<and> end_station_id t = short_name (S ! j)"
  then show "arrivals (computeStationTraffic S (T1 @ t # T2) ! j) =
        Some (Suc (nullish (arrivals (computeStationTraffic S (T1 @ T2) ! j)) 0))"
    by (simp add: computeStationTraffic_map)
next
  assume "j < length S \<and> start_station_id t = short_name (S ! j)"
  then show "departures (computeStationTraffic S (T1 @ t # T2) ! j) =
        Some (Suc (nullish (departures (computeStationTraffic S (T1 @ T2) ! j)) 0))"
    by (simp add: computeStationTraffic_map)
next
  assume a: "i < length S \<and>
    (\<forall>u \<in> set T. start_station_id u \<noteq> short_name (S ! i) \<and>
                  end_station_id u \<noteq> short_name (S ! i))"
  then have "filter (\<lambda>u. end_station_id u = short_name (S ! i)) T = []"
    "filter (\<lambda>u. start_station_id u = short_name (S ! i)) T = []"
    by (auto simp: filter_empty_conv)
  with a show "computeStationTraffic S T ! i =
        (S ! i)\<lparr>arrivals := Some 0, departures := Some 0, totalTraffic := Some 0\<rparr>"
    by (simp add: computeStationTraffic_map)
qed

theorem unmatched_endpoint_not_counted_witness:
  "start_station_id (example_trip ''X'' ''Y'' (8, 0) (8, 10))
     \<notin> short_name ` set scenario_stations \<and>
   end_station_id (example_trip ''X'' ''Y'' (8, 0) (8, 10))
     \<notin> short_name ` set scenario_stations \<and>
   computeStationTraffic scenario_stations
       (scenario_trips @ example_trip ''X'' ''Y'' (8, 0) (8, 10) # [])
     = computeStationTraffic scenario_stations (scenario_trips @ []) \<and>
   0 < length scenario_stations \<and>
   start_station_id (example_trip ''X'' ''Y'' (8, 0) (8, 10)) \<noteq> short_name (scenario_stations ! 0) \<and>
   end_station_id (example_trip ''X'' ''Y'' (8, 0) (8, 10)) \<noteq> short_name (scenario_stations ! 0) \<and>
   computeStationTraffic scenario_stations [example_trip ''X'' ''Y'' (8, 0) (8, 10)] ! 0 =
     (scenario_stations ! 0)\<lparr>arrivals := Some 0, departures := Some 0, totalTraffic := Some 0\<rparr> \<and>
   start_station_id (example_trip ''X'' ''A'' (8, 0) (8, 10))
     \<notin> short_name ` set scenario_stations \<and>
   end_station_id (example_trip ''X'' ''A'' (8, 0) (8, 10)) = short_name (scenario_stations ! 0) \<and>
   map departures (computeStationTraffic scenario_stations
       (scenario_trips @ example_trip ''X'' ''A'' (8, 0) (8, 10) # [])) = [Some 1, Some 1] \<and>
   arrivals (computeStationTraffic scenario_stations
       (scenario_trips @ example_trip ''X'' ''A'' (8, 0) (8, 10) # []) ! 0) = Some 2 \<and>
   start_station_id (example_trip ''B'' ''Y'' (8, 0) (8, 10)) = short_name (scenario_stations ! 1) \<and>
   departures (computeStationTraffic scenario_stations
       (scenario_trips @ example_trip ''B'' ''Y'' (8, 0) (8, 10) # []) ! 1) = Some 2"
proof -
  have ids: "start_station_id (example_trip ''X'' ''Y'' (8, 0) (8, 10))
       \<notin> short_name ` set scenario_stations"
    "end_station_id (example_trip ''X'' ''Y'' (8, 0) (8, 10))
       \<notin> short_name ` set scenario_stations"
    "start_station_id (example_trip ''X'' ''A'' (8, 0) (8, 10))
       \<notin> short_name ` set scenario_stations"
    "end_station_id (example_trip ''X'' ''A'' (8, 0) (8, 10)) = short_name (scenario_stations ! 0)"
    "start_station_id (example_trip ''B'' ''Y'' (8, 0) (8, 10)) = short_name (scenario_stations ! 1)"
    by (simp_all add: scenario_stations_def example_station_def example_trip_def)
  have idle: "0 < length scenario_stations \<and>
     (\<forall>u \<in> set [example_trip ''X'' ''Y'' (8, 0) (8, 10)].
       start_station_id u \<noteq> short_name (scenario_stations ! 0) \<and>
       end_station_id u \<noteq> short_name (scenario_stations ! 0))"
    by (simp add: scenario_stations_def example_station_def example_trip_def)
  have len: "0 < length scenario_stations" "1 < length scenario_stations"
    by (simp_all add: scenario_stations_def)
  have base: "computeStationTraffic scenario_stations scenario_trips =
     [(example_station ''A'')\<lparr>arrivals := Some 1, departures := Some 1, totalTraffic := Some 2\<rparr>,
      (example_station ''B'')\<lparr>arrivals := Some 1, departures := Some 1, totalTraffic := Some 2\<rparr>]"
    by (simp add: computeStationTraffic_def Let_def d3_rollup_def group_step_def
        scenario_stations_def scenario_trips_def example_station_def example_trip_def)
  have both: "computeStationTraffic scenario_stations
       (scenario_trips @ example_trip ''X'' ''Y'' (8, 0) (8, 10) # [])
     = computeStationTraffic scenario_stations (scenario_trips @ []) \<and>
     computeStationTraffic scenario_stations [example_trip ''X'' ''Y'' (8, 0) (8, 10)] ! 0 =
     (scenario_stations ! 0)\<lparr>arrivals := Some 0, departures := Some 0, totalTraffic := Some 0\<rparr>"
    using unmatched_endpoint_not_counted
      [of "example_trip ''X'' ''Y'' (8, 0) (8, 10)" scenario_stations scenario_trips "[]"
          0 0 "[example_trip ''X'' ''Y'' (8, 0) (8, 10)]"] ids idle
    by simp
  have xa: "map departures (computeStationTraffic scenario_stations
       (scenario_trips @ example_trip ''X'' ''A'' (8, 0) (8, 10) # [])) = [Some 1, Some 1] \<and>
     arrivals (computeStationTraffic scenario_stations
       (scenario_trips @ example_trip ''X'' ''A'' (8, 0) (8, 10) # []) ! 0) = Some 2"
    using unmatched_endpoint_not_counted
      [of "example_trip ''X'' ''A'' (8, 0) (8, 10)" scenario_stations scenario_trips "[]"
          0 0 "[]"] ids len
    by (simp add: base)
  have bY: "departures (computeStationTraffic scenario_stations
       (scenario_trips @ example_trip ''B'' ''Y'' (8, 0) (8, 10) # []) ! 1) = Some 2"
    using unmatched_endpoint_not_counted
      [of "example_trip ''B'' ''Y'' (8, 0) (8, 10)" scenario_stations scenario_trips "[]"
          1 0 "[]"] ids len
    by (simp add: base)
  from ids idle both xa bY show ?thesis by simp
qed

section \<open>The flow-ratio scale: properties\<close>

lemma thresholds_stationFlow: "thresholds stationFlow = [1 / 3, 2 / 3]"
  by (simp add: thresholds_def stationFlow_def upt_rec)

lemma q_range_stationFlow: "q_range stationFlow = [0, 1 / 2, 1]"
  by (simp add: stationFlow_def)

lemma bisectRight_done: "\<not> lo < hi \<Longrightarrow> bisectRight a x lo hi = lo"
  by (subst bisectRight.simps) simp

text \<open>The binary search over the two thresholds, step by step: the middle index of
  \<open>[0, 2)\<close> is 1, and of \<open>[0, 1)\<close> it is 0.\<close>

lemma bisectRight_thirds:
  "bisectRight [1 / 3, 2 / 3] x 0 (Suc (Suc 0)) =
     (if x < 1 / 3 then 0 else if x < 2 / 3 then Suc 0 else Suc (Suc 0))"
proof -
  have low: "bisectRight [1 / 3, 2 / 3] x 0 (Suc 0) = (if 1 / 3 \<le> x then Suc 0 else 0)"
    by (subst bisectRight.simps) (simp add: bisectRight_done)
  show ?thesis
    by (subst bisectRight.simps) (auto simp: bisectRight_done low)
qed

lemma stationFlow_apply:
  "quantize_apply stationFlow (Num x) =
     Some (if x < 1 / 3 then 0 else if x < 2 / 3 then 1 / 2 else 1)"
  by (simp add: thresholds_stationFlow q_range_stationFlow bisectRight_thirds)

text \<open>
  \<^bold>\<open>C9.\<close> The two thresholds of \<open>stationFlow\<close> are 1/3 and 2/3, and a ratio \<open>r\<close> is
  encoded as 0 when \<open>r < 1/3\<close>, as 0.5 when \<open>1/3 \<le> r < 2/3\<close> and as 1 when
  \<open>r \<ge> 2/3\<close>. This holds for every real \<open>r\<close>, in particular on \<open>[0, 1]\<close>.
\<close>

theorem stationFlow_thirds:
  "thresholds stationFlow = [1 / 3, 2 / 3] \<and>
   quantize_apply stationFlow (Num r) =
     Some (if r < 1 / 3 then 0 else if r < 2 / 3 then 1 / 2 else 1)"
  by (simp only: thresholds_stationFlow stationFlow_apply simp_thms)

lemma aggregated_counts_defined:
  assumes "d \<in> set (computeStationTraffic S T)"
  shows "\<exists>arr dep. arrivals d = Some arr \<and> departures d = Some dep \<and>
                   totalTraffic d = Some (arr + dep)"
  using assms by (auto simp: computeStationTraffic_map)

text \<open>On a station of an aggregation the argument of \<open>stationFlow\<close> is the ratio of
  departures to total traffic, or 0.5 without traffic, and falls in one of the three
  buckets.\<close>

lemma flow_input_aggregated:
  "d \<in> set (computeStationTraffic S T) \<longrightarrow>
     flow_input d =
       Num (if nullish (totalTraffic d) 0 = 0 then 1 / 2
            else real (nullish (departures d) 0) / real (nullish (totalTraffic d) 0)) \<and>
     js_le (Num 0) (flow_input d) \<and> js_le (flow_input d) (Num 1) \<and>
     quantize_apply stationFlow (flow_input d) \<in> {Some 0, Some (1 / 2), Some 1}"
proof
  assume "d \<in> set (computeStationTraffic S T)"
  then obtain arr dep where f: "arrivals d = Some arr" "departures d = Some dep"
      "totalTraffic d = Some (arr + dep)"
    using aggregated_counts_defined by blast
  have 1: "flow_input d =
       Num (if nullish (totalTraffic d) 0 = 0 then 1 / 2
            else real (nullish (departures d) 0) / real (nullish (totalTraffic d) 0))"
    using f by (auto simp: flow_input_def)
  have 2: "js_le (Num 0) (flow_input d) \<and> js_le (flow_input d) (Num 1)"
    using f by (simp add: 1)
  have 3: "quantize_apply stationFlow (flow_input d) \<in> {Some 0, Some (1 / 2), Some 1}"
    by (simp add: 1 stationFlow_apply del: quantize_apply.simps)
  from 1 2 3 show "flow_input d =
       Num (if nullish (totalTraffic d) 0 = 0 then 1 / 2
            else real (nullish (departures d) 0) / real (nullish (totalTraffic d) 0)) \<and>
     js_le (Num 0) (flow_input d) \<and> js_le (flow_input d) (Num 1) \<and>
     quantize_apply stationFlow (flow_input d) \<in> {Some 0, Some (1 / 2), Some 1}"
    by blast
qed

lemma flow_bucket_aggregated:
  assumes "d \<in> set (computeStationTraffic S T)"
  shows "quantize_apply stationFlow (flow_input d) =
     Some (if nullish (totalTraffic d) 0 = 0 then 1 / 2
           else if real (nullish (departures d) 0) / real (nullish (totalTraffic d) 0) < 1 / 3
           then 0
           else if real (nullish (departures d) 0) / real (nullish (totalTraffic d) 0) < 2 / 3
           then 1 / 2
           else 1)"
proof -
  have "flow_input d =
       Num (if nullish (totalTraffic d) 0 = 0 then 1 / 2
            else real (nullish (departures d) 0) / real (nullish (totalTraffic d) 0))"
    using assms flow_input_aggregated by blast
  then show ?thesis
    by (simp add: stationFlow_apply del: quantize_apply.simps)
qed

section \<open>The view: properties\<close>

subsection \<open>Circles and stations stay aligned\<close>

lemma map_zip_fst: "length xs = length ys \<Longrightarrow> map (\<lambda>p. f (fst p)) (zip xs ys) = map f xs"
  by (induction xs ys rule: list_induct2) simp_all

lemma map_zip_snd: "length xs = length ys \<Longrightarrow> map (\<lambda>p. f (snd p)) (zip xs ys) = map f ys"
  by (induction xs ys rule: list_induct2) simp_all

lemma radii_zip:
  "length S = length C \<Longrightarrow>
   map (\<lambda>x. scale_apply sc (to_number (totalTraffic (fst x)))) (zip S C) =
   map (\<lambda>d. scale_apply sc (to_number (totalTraffic d))) S"
  using map_zip_fst [of S C "\<lambda>d. scale_apply sc (to_number (totalTraffic d))"] by simp

lemma coords_zip:
  "length S = length C \<Longrightarrow>
   map (\<lambda>x. Some (fst (getCoords p (fst x)))) (zip S C) = map (\<lambda>d. Some (fst (getCoords p d))) S"
  "length S = length C \<Longrightarrow>
   map (\<lambda>x. Some (snd (getCoords p (fst x)))) (zip S C) = map (\<lambda>d. Some (snd (getCoords p d))) S"
  using map_zip_fst [of S C "\<lambda>d. Some (fst (getCoords p d))"]
        map_zip_fst [of S C "\<lambda>d. Some (snd (getCoords p d))"] by simp_all

lemma ratio_zip:
  "length S = length C \<Longrightarrow> map (\<lambda>x. departure_ratio (snd x)) (zip S C) = map departure_ratio C"
  using map_zip_snd [of S C departure_ratio] by simp

lemma flow_zip:
  "length S = length C \<Longrightarrow>
   map (\<lambda>x. quantize_apply stationFlow (flow_input (fst x))) (zip S C) =
   map (\<lambda>d. quantize_apply stationFlow (flow_input d)) S"
  using map_zip_fst [of S C "\<lambda>d. quantize_apply stationFlow (flow_input d)"] by simp

lemma radii_current_length: "radii_current v \<Longrightarrow> length (v_circles v) = length (v_stations v)"
  unfolding radii_current_def by (rule map_eq_imp_length_eq)

lemma radii_current_draw: "radii_current (draw S T)"
  by (simp add: radii_current_def draw_def Let_def comp_def)

lemma radii_current_updatePositions:
  "length (v_circles v) = length (v_stations v) \<Longrightarrow> radii_current (updatePositions p v)"
  by (simp add: radii_current_def updatePositions_def case_prod_unfold comp_def radii_zip)

lemma radii_current_updateScatterPlot:
  "length (v_circles v) = length (v_stations v) \<Longrightarrow> radii_current (updateScatterPlot p tf v)"
  by (simp add: radii_current_def updateScatterPlot_def Let_def case_prod_unfold comp_def
      radii_zip length_computeStationTraffic)

lemma radii_current_handle: "radii_current v \<Longrightarrow> radii_current (handle v e)"
  by (cases e)
     (simp_all add: radii_current_updatePositions radii_current_updateScatterPlot
        radii_current_length updateTimeDisplay_def)

lemma radii_current_run: "radii_current v \<Longrightarrow> radii_current (run v es)"
  unfolding run_def by (induction es arbitrary: v) (simp_all add: radii_current_handle)

lemma updatePositions_frame:
  assumes "radii_current v"
  shows "v_stations (updatePositions p v) = v_stations v"
    and "v_trips (updatePositions p v) = v_trips v"
    and "v_radiusScale (updatePositions p v) = v_radiusScale v"
    and "v_timeFilter (updatePositions p v) = v_timeFilter v"
    and "map attr_r (v_circles (updatePositions p v)) = map attr_r (v_circles v)"
    and "map departure_ratio (v_circles (updatePositions p v)) = map departure_ratio (v_circles v)"
    and "map attr_cx (v_circles (updatePositions p v)) =
           map (\<lambda>d. Some (fst (getCoords p d))) (v_stations v)"
    and "map attr_cy (v_circles (updatePositions p v)) =
           map (\<lambda>d. Some (snd (getCoords p d))) (v_stations v)"
proof -
  have len: "length (v_stations v) = length (v_circles v)"
    using assms by (simp add: radii_current_length)
  show "v_stations (updatePositions p v) = v_stations v"
    "v_trips (updatePositions p v) = v_trips v"
    "v_radiusScale (updatePositions p v) = v_radiusScale v"
    "v_timeFilter (updatePositions p v) = v_timeFilter v"
    by (simp_all add: updatePositions_def)
  show "map attr_r (v_circles (updatePositions p v)) = map attr_r (v_circles v)"
    using assms len
    by (simp add: radii_current_def updatePositions_def case_prod_unfold comp_def radii_zip)
  show "map departure_ratio (v_circles (updatePositions p v)) = map departure_ratio (v_circles v)"
    using len by (simp add: updatePositions_def case_prod_unfold comp_def ratio_zip)
  show "map attr_cx (v_circles (updatePositions p v)) =
           map (\<lambda>d. Some (fst (getCoords p d))) (v_stations v)"
    using len by (simp add: updatePositions_def case_prod_unfold comp_def coords_zip)
  show "map attr_cy (v_circles (updatePositions p v)) =
           map (\<lambda>d. Some (snd (getCoords p d))) (v_stations v)"
    using len by (simp add: updatePositions_def case_prod_unfold comp_def coords_zip)
qed

text \<open>
  \<^bold>\<open>C8.\<close> In every state reached from the first drawing by any events, the handler of
  a view change, \<open>updatePositions\<close>, sets the position attributes of the circles from
  the projection and leaves everything else as it is: the stations with their arrivals,
  departures and total traffic, the trips, the radius scale with its domain and range,
  and the circles' flow-ratio style. It assigns the radius attribute too, from the
  unchanged scale and traffic, so to the value the attribute has already.
\<close>

theorem updatePositions_only_positions:
  fixes S T es p
  defines "V \<equiv> run (draw S T) es"
  shows
  "v_stations (updatePositions p V) = v_stations V \<and>
   v_trips (updatePositions p V) = v_trips V \<and>
   v_radiusScale (updatePositions p V) = v_radiusScale V \<and>
   v_timeFilter (updatePositions p V) = v_timeFilter V \<and>
   map attr_r (v_circles (updatePositions p V)) = map attr_r (v_circles V) \<and>
   map departure_ratio (v_circles (updatePositions p V)) = map departure_ratio (v_circles V) \<and>
   map attr_cx (v_circles (updatePositions p V)) =
     map (\<lambda>d. Some (fst (getCoords p d))) (v_stations V) \<and>
   map attr_cy (v_circles (updatePositions p V)) =
     map (\<lambda>d. Some (snd (getCoords p d))) (v_stations V)"
proof -
  have "radii_current V"
    unfolding V_def by (intro radii_current_run radii_current_draw)
  from updatePositions_frame [OF this, of p] show ?thesis
    by (intro conjI)
qed

subsection \<open>What the handlers preserve\<close>

text \<open>No handler touches the domain of the radius scale, and the stations are at all times
  the aggregation of the loaded stations over some selection of the loaded trips.\<close>

lemma handle_domain:
  "scale_domain (v_radiusScale (handle v e)) = scale_domain (v_radiusScale v)"
  by (cases e) (simp_all add: updatePositions_def updateTimeDisplay_def updateScatterPlot_def Let_def)

lemma run_domain:
  "scale_domain (v_radiusScale (run v es)) = scale_domain (v_radiusScale v)"
  unfolding run_def by (induction es arbitrary: v) (simp_all add: handle_domain)

lemma draw_domain:
  "scale_domain (v_radiusScale (draw S T)) =
     (Num 0, to_number (d3_max (computeStationTraffic S T) totalTraffic))"
  by (simp add: draw_def Let_def)

lemma updateScatterPlot_scale:
  "scale_domain (v_radiusScale (updateScatterPlot p tf v)) = scale_domain (v_radiusScale v)"
  "scale_range (v_radiusScale (updateScatterPlot p tf v)) =
     (if js_strict_eq tf (Num (- 1)) then (0, 25) else (3, 50))"
  by (simp_all add: updateScatterPlot_def Let_def)

lemma filterTripsbyTime_filter: "\<exists>P. filterTripsbyTime T tf = filter P T"
proof (cases "js_strict_eq tf (Num (- 1))")
  case True
  then have "filterTripsbyTime T tf = filter (\<lambda>_. True) T"
    by (simp add: filterTripsbyTime_def)
  then show ?thesis by blast
next
  case False
  then show ?thesis unfolding filterTripsbyTime_def by auto
qed

lemma handle_stations:
  assumes "v_trips v = T" "\<exists>P. v_stations v = computeStationTraffic S (filter P T)"
  shows "v_trips (handle v e) = T \<and>
         (\<exists>P. v_stations (handle v e) = computeStationTraffic S (filter P T))"
proof (cases e)
  case (MapMoved p)
  with assms show ?thesis by (simp add: updatePositions_def)
next
  case (SliderInput p x)
  obtain P where "filterTripsbyTime T x = filter P T"
    using filterTripsbyTime_filter by blast
  moreover obtain Q where "v_stations v = computeStationTraffic S (filter Q T)"
    using assms(2) by blast
  ultimately have "v_stations (handle v e) = computeStationTraffic S (filter P T)"
    using SliderInput assms(1)
    by (simp add: updateTimeDisplay_def updateScatterPlot_def Let_def computeStationTraffic_again)
  moreover have "v_trips (handle v e) = T"
    using SliderInput assms(1) by (simp add: updateTimeDisplay_def updateScatterPlot_def Let_def)
  ultimately show ?thesis by blast
qed

lemma run_stations:
  assumes "v_trips v = T" "\<exists>P. v_stations v = computeStationTraffic S (filter P T)"
  shows "v_trips (run v es) = T \<and>
         (\<exists>P. v_stations (run v es) = computeStationTraffic S (filter P T))"
  using assms unfolding run_def
proof (induction es arbitrary: v)
  case Nil
  then show ?case by simp
next
  case (Cons e es)
  have "v_trips (handle v e) = T \<and>
         (\<exists>P. v_stations (handle v e) = computeStationTraffic S (filter P T))"
    using Cons.prems by (rule handle_stations)
  then show ?case using Cons.IH [of "handle v e"] by simp
qed

lemma draw_stations:
  "v_trips (draw S T) = T \<and> (\<exists>P. v_stations (draw S T) = computeStationTraffic S (filter P T))"
proof -
  have "v_stations (draw S T) = computeStationTraffic S (filter (\<lambda>_. True) T)"
    by (simp add: draw_def Let_def)
  moreover have "v_trips (draw S T) = T" by (simp add: draw_def Let_def)
  ultimately show ?thesis by blast
qed

lemma after_filter_change_stations:
  "\<exists>P. v_stations (updateScatterPlot p tf (run (draw S T) es)) =
         computeStationTraffic S (filter P T)"
proof -
  have "v_trips (run (draw S T) es) = T \<and>
        (\<exists>P. v_stations (run (draw S T) es) = computeStationTraffic S (filter P T))"
    using draw_stations [of S T] by (intro run_stations) blast+
  then have "v_trips (handle (run (draw S T) es) (SliderInput p tf)) = T \<and>
        (\<exists>P. v_stations (handle (run (draw S T) es) (SliderInput p tf))
               = computeStationTraffic S (filter P T))"
    by (intro handle_stations) blast+
  moreover have "v_stations (handle (run (draw S T) es) (SliderInput p tf))
        = v_stations (updateScatterPlot p tf (run (draw S T) es))"
    by (simp add: updateTimeDisplay_def updateScatterPlot_def Let_def)
  ultimately show ?thesis by auto
qed

subsection \<open>The radius scale\<close>

lemma foldl_max_step_bound:
  "foldl (max_step f) acc vs = Some M \<Longrightarrow>
     (\<forall>x. acc = Some x \<longrightarrow> x \<le> M) \<and> (\<forall>v \<in> set vs. \<forall>x. f v = Some x \<longrightarrow> x \<le> M)"
proof (induction vs arbitrary: acc)
  case Nil
  then show ?case by simp
next
  case (Cons v vs)
  from Cons.prems have "foldl (max_step f) (max_step f acc v) vs = Some M" by simp
  from Cons.IH [OF this]
  have ih: "\<forall>x. max_step f acc v = Some x \<longrightarrow> x \<le> M"
    "\<forall>w \<in> set vs. \<forall>x. f w = Some x \<longrightarrow> x \<le> M" by blast+
  from ih(1) have "(\<forall>x. acc = Some x \<longrightarrow> x \<le> M) \<and> (\<forall>x. f v = Some x \<longrightarrow> x \<le> M)"
    by (auto simp: max_step_def split: option.splits if_splits)
  with ih(2) show ?case by simp
qed

lemma d3_max_bound:
  "d3_max vs f = Some M \<Longrightarrow> v \<in> set vs \<Longrightarrow> f v = Some x \<Longrightarrow> x \<le> M"
  unfolding d3_max_def using foldl_max_step_bound by blast

lemma length_filter_filter_le: "length (filter Q (filter P T)) \<le> length (filter Q T)"
  by (induction T) auto

lemma filtered_total_le:
  assumes "d3_max (computeStationTraffic S T) totalTraffic = Some M"
    and "d \<in> set (computeStationTraffic S (filter P T))"
  shows "\<exists>n. totalTraffic d = Some n \<and> n \<le> M"
proof -
  let ?a = "\<lambda>s T. length (filter (\<lambda>t. end_station_id t = short_name s) T)"
  let ?d = "\<lambda>s T. length (filter (\<lambda>t. start_station_id t = short_name s) T)"
  from assms(2) obtain s where s: "s \<in> set S"
    and d: "totalTraffic d = Some (?a s (filter P T) + ?d s (filter P T))"
    by (auto simp: computeStationTraffic_map)
  let ?s0 = "s\<lparr>arrivals := Some (?a s T), departures := Some (?d s T),
               totalTraffic := Some (?a s T + ?d s T)\<rparr>"
  have "?s0 \<in> set (computeStationTraffic S T)"
    using s by (auto simp: computeStationTraffic_map)
  moreover have "totalTraffic ?s0 = Some (?a s T + ?d s T)" by simp
  ultimately have "?a s T + ?d s T \<le> M"
    using d3_max_bound [OF assms(1)] by blast
  moreover have "?a s (filter P T) \<le> ?a s T" "?d s (filter P T) \<le> ?d s T"
    by (rule length_filter_filter_le)+
  ultimately show ?thesis using d by simp
qed

lemma scale_apply_sqrt:
  assumes "scale_domain sc = (Num 0, Num M)" "0 < M" "0 \<le> x"
  shows "scale_apply sc (Num x) =
           Num (fst (scale_range sc) * (1 - sqrt x / sqrt M) + snd (scale_range sc) * (sqrt x / sqrt M))"
  using assms by (simp add: transformSqrt_def normalize_def interpolateNumber_def Let_def)

lemma scale_apply_mono:
  assumes "scale_domain sc = (Num 0, Num M)" "0 < M" "0 \<le> x" "x \<le> y"
    and "fst (scale_range sc) \<le> snd (scale_range sc)"
  shows "js_le (scale_apply sc (Num x)) (scale_apply sc (Num y))"
proof -
  let ?r0 = "fst (scale_range sc)" and ?r1 = "snd (scale_range sc)"
  have "sqrt x / sqrt M \<le> sqrt y / sqrt M"
    using assms(2,4) by (simp add: divide_right_mono)
  then have "(?r1 - ?r0) * (sqrt x / sqrt M) \<le> (?r1 - ?r0) * (sqrt y / sqrt M)"
    using assms(5) by (intro mult_left_mono) simp_all
  then have "?r0 * (1 - sqrt x / sqrt M) + ?r1 * (sqrt x / sqrt M)
           \<le> ?r0 * (1 - sqrt y / sqrt M) + ?r1 * (sqrt y / sqrt M)"
    by (simp add: algebra_simps)
  then show ?thesis
    using assms(1-4) by (simp add: scale_apply_sqrt del: scale_apply.simps)
qed

lemma morning_aggregate:
  "computeStationTraffic scenario_stations morning_trips =
     [(example_station ''A'')\<lparr>arrivals := Some 0, departures := Some 4, totalTraffic := Some 4\<rparr>,
      (example_station ''B'')\<lparr>arrivals := Some 4, departures := Some 0, totalTraffic := Some 4\<rparr>]"
  by (simp add: computeStationTraffic_def Let_def d3_rollup_def group_step_def
        scenario_stations_def morning_trips_def example_station_def example_trip_def)

lemma morning_max: "d3_max (computeStationTraffic scenario_stations morning_trips) totalTraffic = Some 4"
  by (simp add: morning_aggregate d3_max_def max_step_def example_station_def)

lemma scenario_aggregate:
  "computeStationTraffic scenario_stations scenario_trips =
     [(example_station ''A'')\<lparr>arrivals := Some 1, departures := Some 1, totalTraffic := Some 2\<rparr>,
      (example_station ''B'')\<lparr>arrivals := Some 1, departures := Some 1, totalTraffic := Some 2\<rparr>]"
  by (simp add: computeStationTraffic_def Let_def d3_rollup_def group_step_def
        scenario_stations_def scenario_trips_def example_station_def example_trip_def)

text \<open>The scale in closed form: a square root on a domain \<open>[0, M]\<close> with \<open>M\<close>
  positive, the midpoint of the range on the collapsed domain \<open>[0, 0]\<close>, and no number
  at all when the domain's upper end is not a number.\<close>

lemma scale_apply_sqrt_form:
  assumes "scale_domain sc = (Num 0, Num M)" "0 < M" "0 \<le> x"
  shows "scale_apply sc (Num x) =
           Num (fst (scale_range sc) +
                (snd (scale_range sc) - fst (scale_range sc)) * sqrt (x / M))"
  using scale_apply_sqrt [OF assms] by (simp add: real_sqrt_divide algebra_simps)

lemma scale_apply_collapsed:
  assumes "scale_domain sc = (Num 0, Num 0)"
  shows "scale_apply sc (Num x) = Num ((fst (scale_range sc) + snd (scale_range sc)) / 2)"
  using assms
  by (simp add: transformSqrt_def normalize_def interpolateNumber_def Let_def field_simps)

lemma scale_apply_NaN_domain:
  assumes "scale_domain sc = (Num 0, NaN)"
  shows "scale_apply sc y = NaN"
  using assms by (cases y) simp_all

lemma foldl_max_step_None:
  "foldl (max_step f) acc vs = None \<Longrightarrow> acc = None \<and> (\<forall>v \<in> set vs. f v = None)"
proof (induction vs arbitrary: acc)
  case Nil
  then show ?case by simp
next
  case (Cons v vs)
  from Cons.prems have "foldl (max_step f) (max_step f acc v) vs = None" by simp
  from Cons.IH [OF this]
  have ih: "max_step f acc v = None" "\<forall>w \<in> set vs. f w = None" by blast+
  from ih(1) have "acc = None \<and> f v = None"
    by (auto simp: max_step_def split: option.splits if_splits)
  with ih(2) show ?case by simp
qed

lemma d3_max_None_iff:
  "(d3_max (computeStationTraffic S T) totalTraffic = None) = (S = [])"
proof
  assume "d3_max (computeStationTraffic S T) totalTraffic = None"
  then have all: "\<forall>d \<in> set (computeStationTraffic S T). totalTraffic d = None"
    unfolding d3_max_def using foldl_max_step_None by blast
  have "computeStationTraffic S T = []"
  proof (cases "computeStationTraffic S T")
    case Nil
    then show ?thesis .
  next
    case (Cons d ds)
    then have d: "d \<in> set (computeStationTraffic S T)" by simp
    then obtain n where "totalTraffic d = Some n"
      using aggregated_counts_defined by blast
    with d all show ?thesis by simp
  qed
  then show "S = []"
    by (simp add: computeStationTraffic_map)
next
  assume "S = []"
  then show "d3_max (computeStationTraffic S T) totalTraffic = None"
    by (simp add: computeStationTraffic_map d3_max_def)
qed

lemma idle_aggregate:
  "computeStationTraffic scenario_stations [] =
     [(example_station ''A'')\<lparr>arrivals := Some 0, departures := Some 0, totalTraffic := Some 0\<rparr>,
      (example_station ''B'')\<lparr>arrivals := Some 0, departures := Some 0, totalTraffic := Some 0\<rparr>]"
  by (simp add: computeStationTraffic_def Let_def d3_rollup_def scenario_stations_def
        example_station_def)

lemma idle_max: "d3_max (computeStationTraffic scenario_stations []) totalTraffic = Some 0"
  by (simp add: idle_aggregate d3_max_def max_step_def example_station_def)

text \<open>
  \<^bold>\<open>C3\<close> as stated fails, twice. First, the domain of the radius scale is not that of
  the current aggregation: with four trips from A to B, three around 08:00 and one at
  noon, the scale is created with the domain \<open>[0, 4]\<close>; under the filter 12:00 (720) the
  greatest total traffic is 1, the domain is still \<open>[0, 4]\<close>, and the scale sends 1 to
  26.5, not to the range maximum 50. Second, with no trips at all the domain is
  \<open>[0, 0]\<close>, and the scale sends 0 to 12.5, the middle of the range \<open>[0, 25]\<close>, not to
  the range minimum 0.
\<close>

theorem radiusScale_domain_not_current:
  "scale_domain (v_radiusScale (updateScatterPlot example_project (Num 720)
             (draw scenario_stations morning_trips)))
     \<noteq> (Num 0, to_number (d3_max (v_stations (updateScatterPlot example_project (Num 720)
             (draw scenario_stations morning_trips))) totalTraffic)) \<and>
   scale_apply (v_radiusScale (updateScatterPlot example_project (Num 720)
             (draw scenario_stations morning_trips)))
       (to_number (d3_max (v_stations (updateScatterPlot example_project (Num 720)
             (draw scenario_stations morning_trips))) totalTraffic))
     \<noteq> Num (snd (scale_range (v_radiusScale (updateScatterPlot example_project (Num 720)
             (draw scenario_stations morning_trips))))) \<and>
   d3_max (v_stations (updateScatterPlot example_project (Num 720)
             (draw scenario_stations morning_trips))) totalTraffic = Some 1 \<and>
   scale_domain (v_radiusScale (updateScatterPlot example_project (Num 720)
             (draw scenario_stations morning_trips))) = (Num 0, Num 4) \<and>
   scale_range (v_radiusScale (updateScatterPlot example_project (Num 720)
             (draw scenario_stations morning_trips))) = (3, 50) \<and>
   scale_apply (v_radiusScale (updateScatterPlot example_project (Num 720)
             (draw scenario_stations morning_trips))) (Num 1) = Num (53 / 2) \<and>
   scale_apply (v_radiusScale (updateScatterPlot example_project (Num (- 1))
             (draw scenario_stations []))) (Num 0)
     \<noteq> Num (fst (scale_range (v_radiusScale (updateScatterPlot example_project (Num (- 1))
             (draw scenario_stations []))))) \<and>
   scale_domain (v_radiusScale (updateScatterPlot example_project (Num (- 1))
             (draw scenario_stations []))) = (Num 0, Num 0) \<and>
   scale_range (v_radiusScale (updateScatterPlot example_project (Num (- 1))
             (draw scenario_stations []))) = (0, 25) \<and>
   scale_apply (v_radiusScale (updateScatterPlot example_project (Num (- 1))
             (draw scenario_stations []))) (Num 0) = Num (25 / 2)"
proof -
  let ?V = "updateScatterPlot example_project (Num 720) (draw scenario_stations morning_trips)"
  let ?U = "updateScatterPlot example_project (Num (- 1)) (draw scenario_stations [])"
  have sel: "filterTripsbyTime morning_trips (Num 720) = [example_trip ''A'' ''B'' (12, 0) (12, 10)]"
    by (simp add: filterTripsbyTime_def morning_trips_def example_trip_def)
  have st: "v_stations ?V =
     [(example_station ''A'')\<lparr>arrivals := Some 0, departures := Some 1, totalTraffic := Some 1\<rparr>,
      (example_station ''B'')\<lparr>arrivals := Some 1, departures := Some 0, totalTraffic := Some 1\<rparr>]"
    by (simp add: updateScatterPlot_def draw_def Let_def sel computeStationTraffic_again)
       (simp add: computeStationTraffic_def Let_def d3_rollup_def group_step_def
        scenario_stations_def example_station_def example_trip_def)
  have 1: "d3_max (v_stations ?V) totalTraffic = Some 1"
    by (simp add: st d3_max_def max_step_def example_station_def)
  have 2: "scale_domain (v_radiusScale ?V) = (Num 0, Num 4)"
    by (simp add: updateScatterPlot_scale draw_domain morning_max)
  have 3: "scale_range (v_radiusScale ?V) = (3, 50)"
    by (simp add: updateScatterPlot_scale)
  have "scale_apply (v_radiusScale ?V) (Num 1) = Num (3 * (1 - sqrt 1 / sqrt 4) + 50 * (sqrt 1 / sqrt 4))"
    using scale_apply_sqrt [OF 2, of 1] 3 by simp
  moreover have "sqrt 4 = 2"
    using real_sqrt_abs [of 2] by simp
  ultimately have 4: "scale_apply (v_radiusScale ?V) (Num 1) = Num (53 / 2)"
    by simp
  have 5: "scale_domain (v_radiusScale ?V) \<noteq> (Num 0, to_number (d3_max (v_stations ?V) totalTraffic))"
    by (simp add: 1 2)
  have 6: "scale_apply (v_radiusScale ?V) (to_number (d3_max (v_stations ?V) totalTraffic))
             \<noteq> Num (snd (scale_range (v_radiusScale ?V)))"
    by (simp add: 1 3 4 del: scale_apply.simps)
  have 7: "scale_domain (v_radiusScale ?U) = (Num 0, Num 0)"
    by (simp add: updateScatterPlot_scale draw_domain idle_max)
  have 8: "scale_range (v_radiusScale ?U) = (0, 25)"
    by (simp add: updateScatterPlot_scale)
  have 9: "scale_apply (v_radiusScale ?U) (Num 0) = Num (25 / 2)"
    using scale_apply_collapsed [OF 7, of 0] 8 by simp
  have 10: "scale_apply (v_radiusScale ?U) (Num 0) \<noteq> Num (fst (scale_range (v_radiusScale ?U)))"
    by (simp add: 8 9 del: scale_apply.simps)
  from 1 2 3 4 5 6 7 8 9 10 show ?thesis by blast
qed

text \<open>
  \<^bold>\<open>C3, amended.\<close> After every filter change, whatever events came before, the
  domain of the radius scale is still \<open>[0, M]\<close>, \<open>M\<close> the greatest total traffic of the
  first aggregation over all trips (the handler sets the range only), and its range is
  \<open>[0, 25]\<close> when the filter value is \<open>-1\<close> and \<open>[3, 50]\<close> otherwise. Every station's
  current total traffic is at most \<open>M\<close>.
  \<^item> When \<open>M\<close> is positive, the scale is the square-root scale: it sends \<open>x \<ge> 0\<close> to
    \<open>min + (max - min) * sqrt (x / M)\<close>, so 0 to the range minimum and \<open>M\<close> to the range
    maximum; it is monotonically non-decreasing on the non-negative numbers, and every
    station's radius is at most the range maximum.
  \<^item> When \<open>M\<close> is 0 (no trip at a station), the scale sends every number to the
    middle of the range, \<open>(min + max) / 2\<close>.
  \<^item> There is no \<open>M\<close> exactly when there are no stations; the scale then returns no
    number.
\<close>

theorem radiusScale_after_filter_change:
  fixes S T es p tf M z
  defines "V \<equiv> updateScatterPlot p tf (run (draw S T) es)"
  shows
  "scale_domain (v_radiusScale V) =
     (Num 0, to_number (d3_max (computeStationTraffic S T) totalTraffic)) \<and>
   scale_range (v_radiusScale V) = (if js_strict_eq tf (Num (- 1)) then (0, 25) else (3, 50)) \<and>
   (d3_max (computeStationTraffic S T) totalTraffic = None) = (S = []) \<and>
   (d3_max (computeStationTraffic S T) totalTraffic = None \<longrightarrow>
      scale_apply (v_radiusScale V) (Num z) = NaN) \<and>
   (d3_max (computeStationTraffic S T) totalTraffic = Some 0 \<longrightarrow>
      scale_apply (v_radiusScale V) (Num z) =
        Num ((fst (scale_range (v_radiusScale V)) + snd (scale_range (v_radiusScale V))) / 2)) \<and>
   (d3_max (computeStationTraffic S T) totalTraffic = Some M \<longrightarrow>
      (\<forall>d \<in> set (v_stations V). js_le (to_number (totalTraffic d)) (Num (real M)))) \<and>
   (d3_max (computeStationTraffic S T) totalTraffic = Some M \<and> 0 < M \<longrightarrow>
      (\<forall>x. 0 \<le> x \<longrightarrow>
         scale_apply (v_radiusScale V) (Num x) =
           Num (fst (scale_range (v_radiusScale V)) +
                (snd (scale_range (v_radiusScale V)) - fst (scale_range (v_radiusScale V)))
                  * sqrt (x / real M))) \<and>
      scale_apply (v_radiusScale V) (Num 0) = Num (fst (scale_range (v_radiusScale V))) \<and>
      scale_apply (v_radiusScale V) (Num (real M)) = Num (snd (scale_range (v_radiusScale V))) \<and>
      (\<forall>x y. 0 \<le> x \<and> x \<le> y \<longrightarrow>
         js_le (scale_apply (v_radiusScale V) (Num x)) (scale_apply (v_radiusScale V) (Num y))) \<and>
      (\<forall>d \<in> set (v_stations V).
         js_le (scale_apply (v_radiusScale V) (to_number (totalTraffic d)))
               (Num (snd (scale_range (v_radiusScale V))))))"
proof -
  let ?sc = "v_radiusScale V"
  let ?mx = "d3_max (computeStationTraffic S T) totalTraffic"
  have dom: "scale_domain ?sc = (Num 0, to_number ?mx)"
    by (simp add: V_def updateScatterPlot_scale run_domain draw_domain)
  have rng: "scale_range ?sc = (if js_strict_eq tf (Num (- 1)) then (0, 25) else (3, 50))"
    by (simp add: V_def updateScatterPlot_scale)
  have ord: "fst (scale_range ?sc) \<le> snd (scale_range ?sc)"
    by (simp add: rng)
  have none: "(?mx = None) = (S = [])"
    by (rule d3_max_None_iff)
  have nan: "?mx = None \<longrightarrow> scale_apply ?sc (Num z) = NaN"
  proof
    assume "?mx = None"
    then have "scale_domain ?sc = (Num 0, NaN)" using dom by simp
    then show "scale_apply ?sc (Num z) = NaN" by (rule scale_apply_NaN_domain)
  qed
  have mid: "?mx = Some 0 \<longrightarrow> scale_apply ?sc (Num z) =
        Num ((fst (scale_range ?sc) + snd (scale_range ?sc)) / 2)"
  proof
    assume "?mx = Some 0"
    then have "scale_domain ?sc = (Num 0, Num 0)" using dom by simp
    then show "scale_apply ?sc (Num z) =
        Num ((fst (scale_range ?sc) + snd (scale_range ?sc)) / 2)"
      by (rule scale_apply_collapsed)
  qed
  have below: "?mx = Some M \<longrightarrow>
      (\<forall>d \<in> set (v_stations V). js_le (to_number (totalTraffic d)) (Num (real M)))"
  proof (intro impI ballI)
    fix d assume mx: "?mx = Some M" and d: "d \<in> set (v_stations V)"
    obtain P where "v_stations V = computeStationTraffic S (filter P T)"
      unfolding V_def using after_filter_change_stations by blast
    with d have "d \<in> set (computeStationTraffic S (filter P T))" by simp
    with mx have "\<exists>n. totalTraffic d = Some n \<and> n \<le> M"
      by (intro filtered_total_le) simp_all
    then show "js_le (to_number (totalTraffic d)) (Num (real M))"
      by auto
  qed
  have pos: "?mx = Some M \<and> 0 < M \<longrightarrow>
      (\<forall>x. 0 \<le> x \<longrightarrow>
         scale_apply ?sc (Num x) =
           Num (fst (scale_range ?sc) +
                (snd (scale_range ?sc) - fst (scale_range ?sc)) * sqrt (x / real M))) \<and>
      scale_apply ?sc (Num 0) = Num (fst (scale_range ?sc)) \<and>
      scale_apply ?sc (Num (real M)) = Num (snd (scale_range ?sc)) \<and>
      (\<forall>x y. 0 \<le> x \<and> x \<le> y \<longrightarrow>
         js_le (scale_apply ?sc (Num x)) (scale_apply ?sc (Num y))) \<and>
      (\<forall>d \<in> set (v_stations V).
         js_le (scale_apply ?sc (to_number (totalTraffic d))) (Num (snd (scale_range ?sc))))"
  proof (intro impI conjI)
    assume mx: "?mx = Some M \<and> 0 < M"
    then have domM: "scale_domain ?sc = (Num 0, Num (real M))" and posM: "0 < real M"
      using dom by simp_all
    show form: "\<forall>x. 0 \<le> x \<longrightarrow>
         scale_apply ?sc (Num x) =
           Num (fst (scale_range ?sc) +
                (snd (scale_range ?sc) - fst (scale_range ?sc)) * sqrt (x / real M))"
      using scale_apply_sqrt_form [OF domM posM] by blast
    show "scale_apply ?sc (Num 0) = Num (fst (scale_range ?sc))"
      using scale_apply_sqrt [OF domM posM, of 0] by simp
    show top: "scale_apply ?sc (Num (real M)) = Num (snd (scale_range ?sc))"
      using scale_apply_sqrt [OF domM posM, of "real M"] posM by simp
    show mono: "\<forall>x y. 0 \<le> x \<and> x \<le> y \<longrightarrow>
         js_le (scale_apply ?sc (Num x)) (scale_apply ?sc (Num y))"
      using scale_apply_mono [OF domM posM _ _ ord] by blast
    show "\<forall>d \<in> set (v_stations V).
         js_le (scale_apply ?sc (to_number (totalTraffic d))) (Num (snd (scale_range ?sc)))"
    proof
      fix d assume d: "d \<in> set (v_stations V)"
      obtain P where "v_stations V = computeStationTraffic S (filter P T)"
        unfolding V_def using after_filter_change_stations by blast
      with d have "d \<in> set (computeStationTraffic S (filter P T))" by simp
      with mx have "\<exists>n. totalTraffic d = Some n \<and> n \<le> M"
        by (intro filtered_total_le) simp_all
      then obtain n where n: "totalTraffic d = Some n" "n \<le> M"
        by blast
      have "js_le (scale_apply ?sc (Num (real n))) (scale_apply ?sc (Num (real M)))"
        using mono n(2) by simp
      then show "js_le (scale_apply ?sc (to_number (totalTraffic d))) (Num (snd (scale_range ?sc)))"
        using n by (simp add: top del: scale_apply.simps)
    qed
  qed
  from dom rng none nan mid below pos show ?thesis
    by (intro conjI)
qed

text \<open>The three cases at work: the busier morning under the filter 12:00 (\<open>M = 4\<close>, range
  \<open>[3, 50]\<close>, and 1 sent to \<open>3 + 47 * sqrt (1 / 4)\<close>), the two stations without any trip
  (\<open>M = 0\<close>, range \<open>[0, 25]\<close>), and no stations.\<close>

theorem radiusScale_after_filter_change_witness:
  "d3_max (computeStationTraffic scenario_stations morning_trips) totalTraffic = Some 4 \<and>
   (0::nat) < 4 \<and>
   scale_apply (v_radiusScale (updateScatterPlot example_project (Num 720)
       (run (draw scenario_stations morning_trips) []))) (Num 0) = Num 3 \<and>
   scale_apply (v_radiusScale (updateScatterPlot example_project (Num 720)
       (run (draw scenario_stations morning_trips) []))) (Num 4) = Num 50 \<and>
   scale_apply (v_radiusScale (updateScatterPlot example_project (Num 720)
       (run (draw scenario_stations morning_trips) []))) (Num 1) = Num (3 + 47 * sqrt (1 / 4)) \<and>
   d3_max (computeStationTraffic scenario_stations []) totalTraffic = Some 0 \<and>
   scale_apply (v_radiusScale (updateScatterPlot example_project (Num (- 1))
       (run (draw scenario_stations []) []))) (Num 7) = Num (25 / 2) \<and>
   d3_max (computeStationTraffic [] morning_trips) totalTraffic = None \<and>
   scale_apply (v_radiusScale (updateScatterPlot example_project (Num (- 1))
       (run (draw [] morning_trips) []))) (Num 7) = NaN"
proof -
  have a: "scale_apply (v_radiusScale (updateScatterPlot example_project (Num 720)
       (run (draw scenario_stations morning_trips) []))) (Num 0) = Num 3 \<and>
     scale_apply (v_radiusScale (updateScatterPlot example_project (Num 720)
       (run (draw scenario_stations morning_trips) []))) (Num 4) = Num 50 \<and>
     scale_apply (v_radiusScale (updateScatterPlot example_project (Num 720)
       (run (draw scenario_stations morning_trips) []))) (Num 1) = Num (3 + 47 * sqrt (1 / 4))"
    using radiusScale_after_filter_change
      [of example_project "Num 720" scenario_stations morning_trips "[]" 0 4] morning_max
    by (simp del: scale_apply.simps)
  have b: "scale_apply (v_radiusScale (updateScatterPlot example_project (Num (- 1))
       (run (draw scenario_stations []) []))) (Num 7) = Num (25 / 2)"
    using radiusScale_after_filter_change
      [of example_project "Num (- 1)" scenario_stations "[]" "[]" 7 0] idle_max
    by (simp del: scale_apply.simps)
  have n: "d3_max (computeStationTraffic [] morning_trips) totalTraffic = None"
    by (simp add: d3_max_None_iff)
  have c: "scale_apply (v_radiusScale (updateScatterPlot example_project (Num (- 1))
       (run (draw [] morning_trips) []))) (Num 7) = NaN"
    using radiusScale_after_filter_change
      [of example_project "Num (- 1)" "[]" morning_trips "[]" 7 0] n
    by (simp del: scale_apply.simps)
  from a b c n morning_max idle_max show ?thesis by simp
qed

subsection \<open>The flow-ratio style\<close>

text \<open>
  \<^bold>\<open>C7.\<close> After every filter change, every circle's flow-ratio style value is
  \<open>stationFlow\<close> applied to its station's ratio of departures to total traffic, or to
  0.5 when the total traffic is 0. That argument lies in the domain \<open>[0, 1]\<close>, and the
  value is the one of 0, 0.5 and 1 that stands for the third of the domain the ratio
  falls in: 0 below 1/3, 0.5 from 1/3 up to but not including 2/3 and when there is no
  traffic, 1 from 2/3 on.
\<close>

theorem departure_ratio_quantized:
  fixes S T es p tf
  defines "V \<equiv> updateScatterPlot p tf (run (draw S T) es)"
  shows
  "map departure_ratio (v_circles V) =
     map (\<lambda>d. quantize_apply stationFlow (flow_input d)) (v_stations V) \<and>
   (\<forall>d \<in> set (v_stations V).
      flow_input d =
        Num (if nullish (totalTraffic d) 0 = 0 then 1 / 2
             else real (nullish (departures d) 0) / real (nullish (totalTraffic d) 0)) \<and>
      js_le (Num 0) (flow_input d) \<and> js_le (flow_input d) (Num 1) \<and>
      quantize_apply stationFlow (flow_input d) =
        Some (if nullish (totalTraffic d) 0 = 0 then 1 / 2
              else if real (nullish (departures d) 0) / real (nullish (totalTraffic d) 0) < 1 / 3
              then 0
              else if real (nullish (departures d) 0) / real (nullish (totalTraffic d) 0) < 2 / 3
              then 1 / 2
              else 1) \<and>
      quantize_apply stationFlow (flow_input d) \<in> {Some 0, Some (1 / 2), Some 1})"
proof
  have "radii_current (run (draw S T) es)"
    by (intro radii_current_run radii_current_draw)
  then have "length (v_circles (run (draw S T) es)) = length (v_stations (run (draw S T) es))"
    by (rule radii_current_length)
  then show "map departure_ratio (v_circles V) =
     map (\<lambda>d. quantize_apply stationFlow (flow_input d)) (v_stations V)"
    unfolding V_def
    by (simp add: updateScatterPlot_def Let_def case_prod_unfold comp_def flow_zip
        length_computeStationTraffic del: quantize_apply.simps)
  obtain P where P: "v_stations V = computeStationTraffic S (filter P T)"
    unfolding V_def using after_filter_change_stations by blast
  show "\<forall>d \<in> set (v_stations V).
      flow_input d =
        Num (if nullish (totalTraffic d) 0 = 0 then 1 / 2
             else real (nullish (departures d) 0) / real (nullish (totalTraffic d) 0)) \<and>
      js_le (Num 0) (flow_input d) \<and> js_le (flow_input d) (Num 1) \<and>
      quantize_apply stationFlow (flow_input d) =
        Some (if nullish (totalTraffic d) 0 = 0 then 1 / 2
              else if real (nullish (departures d) 0) / real (nullish (totalTraffic d) 0) < 1 / 3
              then 0
              else if real (nullish (departures d) 0) / real (nullish (totalTraffic d) 0) < 2 / 3
              then 1 / 2
              else 1) \<and>
      quantize_apply stationFlow (flow_input d) \<in> {Some 0, Some (1 / 2), Some 1}"
  proof
    fix d assume "d \<in> set (v_stations V)"
    then have d: "d \<in> set (computeStationTraffic S (filter P T))"
      using P by simp
    from flow_input_aggregated [rule_format, OF d] flow_bucket_aggregated [OF d]
    show "flow_input d =
        Num (if nullish (totalTraffic d) 0 = 0 then 1 / 2
             else real (nullish (departures d) 0) / real (nullish (totalTraffic d) 0)) \<and>
      js_le (Num 0) (flow_input d) \<and> js_le (flow_input d) (Num 1) \<and>
      quantize_apply stationFlow (flow_input d) =
        Some (if nullish (totalTraffic d) 0 = 0 then 1 / 2
              else if real (nullish (departures d) 0) / real (nullish (totalTraffic d) 0) < 1 / 3
              then 0
              else if real (nullish (departures d) 0) / real (nullish (totalTraffic d) 0) < 2 / 3
              then 1 / 2
              else 1) \<and>
      quantize_apply stationFlow (flow_input d) \<in> {Some 0, Some (1 / 2), Some 1}"
      by blast
  qed
qed

text \<open>The three buckets at work: in the scenario station A has one departure in a total
  of two; on the busier morning A has four departures in a total of four and B none in a
  total of four.\<close>

theorem departure_ratio_quantized_witness:
  "(example_station ''A'')\<lparr>arrivals := Some 1, departures := Some 1, totalTraffic := Some 2\<rparr>
     \<in> set (v_stations (updateScatterPlot example_project (Num (- 1))
                (run (draw scenario_stations scenario_trips) []))) \<and>
   quantize_apply stationFlow (flow_input
     ((example_station ''A'')\<lparr>arrivals := Some 1, departures := Some 1, totalTraffic := Some 2\<rparr>))
     = Some (1 / 2) \<and>
   (example_station ''A'')\<lparr>arrivals := Some 0, departures := Some 4, totalTraffic := Some 4\<rparr>
     \<in> set (v_stations (updateScatterPlot example_project (Num (- 1))
                (run (draw scenario_stations morning_trips) []))) \<and>
   quantize_apply stationFlow (flow_input
     ((example_station ''A'')\<lparr>arrivals := Some 0, departures := Some 4, totalTraffic := Some 4\<rparr>))
     = Some 1 \<and>
   (example_station ''B'')\<lparr>arrivals := Some 4, departures := Some 0, totalTraffic := Some 4\<rparr>
     \<in> set (v_stations (updateScatterPlot example_project (Num (- 1))
                (run (draw scenario_stations morning_trips) []))) \<and>
   quantize_apply stationFlow (flow_input
     ((example_station ''B'')\<lparr>arrivals := Some 4, departures := Some 0, totalTraffic := Some 4\<rparr>))
     = Some 0 \<and>
   map departure_ratio (v_circles (updateScatterPlot example_project (Num (- 1))
                (run (draw scenario_stations morning_trips) []))) = [Some 1, Some 0]"
proof -
  let ?a = "(example_station ''A'')\<lparr>arrivals := Some 1, departures := Some 1, totalTraffic := Some 2\<rparr>"
  let ?a4 = "(example_station ''A'')\<lparr>arrivals := Some 0, departures := Some 4, totalTraffic := Some 4\<rparr>"
  let ?b4 = "(example_station ''B'')\<lparr>arrivals := Some 4, departures := Some 0, totalTraffic := Some 4\<rparr>"
  let ?V = "updateScatterPlot example_project (Num (- 1)) (run (draw scenario_stations scenario_trips) [])"
  let ?W = "updateScatterPlot example_project (Num (- 1)) (run (draw scenario_stations morning_trips) [])"
  have V: "v_stations ?V = [?a, (example_station ''B'')\<lparr>arrivals := Some 1, departures := Some 1, totalTraffic := Some 2\<rparr>]"
    by (simp add: updateScatterPlot_def run_def draw_def Let_def filter_unfiltered
        computeStationTraffic_again) (simp add: scenario_aggregate)
  have W: "v_stations ?W = [?a4, ?b4]"
    by (simp add: updateScatterPlot_def run_def draw_def Let_def filter_unfiltered
        computeStationTraffic_again) (simp add: morning_aggregate)
  have mem: "?a \<in> set (v_stations ?V)" "?a4 \<in> set (v_stations ?W)" "?b4 \<in> set (v_stations ?W)"
    by (simp_all only: V W list.set insert_iff simp_thms)
  have bV: "\<And>d. d \<in> set (v_stations ?V) \<Longrightarrow>
      quantize_apply stationFlow (flow_input d) =
        Some (if nullish (totalTraffic d) 0 = 0 then 1 / 2
              else if real (nullish (departures d) 0) / real (nullish (totalTraffic d) 0) < 1 / 3
              then 0
              else if real (nullish (departures d) 0) / real (nullish (totalTraffic d) 0) < 2 / 3
              then 1 / 2
              else 1)"
    using departure_ratio_quantized
      [of example_project "Num (- 1)" scenario_stations scenario_trips "[]"]
    by blast
  have bW: "\<And>d. d \<in> set (v_stations ?W) \<Longrightarrow>
      quantize_apply stationFlow (flow_input d) =
        Some (if nullish (totalTraffic d) 0 = 0 then 1 / 2
              else if real (nullish (departures d) 0) / real (nullish (totalTraffic d) 0) < 1 / 3
              then 0
              else if real (nullish (departures d) 0) / real (nullish (totalTraffic d) 0) < 2 / 3
              then 1 / 2
              else 1)"
    using departure_ratio_quantized
      [of example_project "Num (- 1)" scenario_stations morning_trips "[]"]
    by blast
  have a: "quantize_apply stationFlow (flow_input ?a) = Some (1 / 2)"
    using bV [OF mem(1)] by (simp add: example_station_def del: quantize_apply.simps)
  have a4: "quantize_apply stationFlow (flow_input ?a4) = Some 1"
    using bW [OF mem(2)] by (simp add: example_station_def del: quantize_apply.simps)
  have b4: "quantize_apply stationFlow (flow_input ?b4) = Some 0"
    using bW [OF mem(3)] by (simp add: example_station_def del: quantize_apply.simps)
  have "map departure_ratio (v_circles ?W) = [Some 1, Some 0]"
    using departure_ratio_quantized
      [of example_project "Num (- 1)" scenario_stations morning_trips "[]"]
    by (simp only: W list.map a4 b4)
  with mem a a4 b4 show ?thesis by blast
qed

end
